theory Spec2Isabelle
  imports Main "HOL-Library.Sublist" "HOL-Library.AList" "HOL-Library.Word"
begin

section \<open>Library functions the package calls\<close>

text \<open>
  Go strings are byte sequences, as \<^typ>\<open>string\<close> is. The three functions of package
  \<^verbatim>\<open>strings\<close> that the resolver calls are written out after their library
  documentation. \<^verbatim>\<open>strings.Split\<close> is only ever called with the one-byte separator
  \<^verbatim>\<open>":"\<close>, so the separator is a single \<^typ>\<open>char\<close> here.
\<close>

definition HasSuffix :: "string \<Rightarrow> string \<Rightarrow> bool" where
  "HasSuffix s suf = (length suf \<le> length s \<and> drop (length s - length suf) s = suf)"

fun Contains :: "string \<Rightarrow> string \<Rightarrow> bool" where
  "Contains [] substr = (substr = [])"
| "Contains (c # s) substr = (take (length substr) (c # s) = substr \<or> Contains s substr)"

fun Split :: "string \<Rightarrow> char \<Rightarrow> string list" where
  "Split [] sep = [[]]"
| "Split (c # s) sep =
     (if c = sep then [] # Split s sep
      else (case Split s sep of [] \<Rightarrow> [[c]] | w # ws \<Rightarrow> (c # w) # ws))"

text \<open>
  \<^verbatim>\<open>http.Header\<close> is a \<^verbatim>\<open>map[string][]string\<close>; \<^verbatim>\<open>Header.Get\<close> returns the first value
  stored under the canonical form of the key, or the empty string. Both keys the package
  asks for are written in canonical form already. \<^verbatim>\<open>os.Getenv\<close> returns the empty
  string for a variable that is not set.
\<close>

type_synonym Header = "string \<rightharpoonup> string list"

definition Get :: "Header \<Rightarrow> string \<Rightarrow> string" where
  "Get h key = (case h key of None \<Rightarrow> [] | Some [] \<Rightarrow> [] | Some (v # _) \<Rightarrow> v)"

type_synonym environ = "string \<rightharpoonup> string"

definition Getenv :: "environ \<Rightarrow> string \<Rightarrow> string" where
  "Getenv env key = (case env key of None \<Rightarrow> [] | Some v \<Rightarrow> v)"

section \<open>Requests\<close>

text \<open>
  Of \<^verbatim>\<open>http.Request\<close> the package reads the header map, the \<^verbatim>\<open>Host\<close> field and whether
  the \<^verbatim>\<open>TLS\<close> pointer is nil; of \<^verbatim>\<open>gin.Context\<close> it reads the request.
\<close>

datatype ConnectionState = ConnectionState

record Request =
  Header :: Header
  Host :: string
  TLS :: "ConnectionState option"

record Context =
  Request :: Request

section \<open>Origin resolver: \<^verbatim>\<open>detectHost\<close> and \<^verbatim>\<open>detectScheme\<close>\<close>

definition detectHost :: "Context \<Rightarrow> environ \<Rightarrow> string" where
  "detectHost c env =
     (let host = Get (Header (Request c)) ''X-Forwarded-Host'' in
      if host \<noteq> [] then host
      else
        let host = Request.Host (Request c) in
        if host \<noteq> [] then
          (if HasSuffix host '':80'' \<or> HasSuffix host '':443''
           then Split host (CHR '':'') ! 0
           else host)
        else
          let railwayURL = Getenv env ''RAILWAY_STATIC_URL'' in
          if railwayURL \<noteq> [] then railwayURL
          else
            let railwayURL = Getenv env ''RAILWAY_PUBLIC_DOMAIN'' in
            if railwayURL \<noteq> [] then railwayURL
            else
              let apiHost = Getenv env ''API_HOST'' in
              if apiHost \<noteq> [] then apiHost
              else
                let apiURL = Getenv env ''API_URL'' in
                if apiURL \<noteq> [] then apiURL
                else ''localhost:8080'')"

definition detectScheme :: "Context \<Rightarrow> environ \<Rightarrow> string" where
  "detectScheme c env =
     (if TLS (Request c) \<noteq> None then ''https''
      else
        let proto = Get (Header (Request c)) ''X-Forwarded-Proto'' in
        if proto \<noteq> [] then proto
        else
          let host = Request.Host (Request c) in
          if Contains host ''.railway.app'' \<or> Contains host ''.up.railway.app'' then ''https''
          else if Getenv env ''ENV'' = ''production'' \<or> Getenv env ''ENV'' = ''staging''
          then ''https''
          else ''http'')"

section \<open>Configuration\<close>

record Config =
  Title :: string
  Description :: string
  Version :: string
  Host :: string
  BasePath :: string
  Schemes :: "string list"
  AutoDetectHost :: bool
  Enabled :: bool
  UIPath :: string
  JSONPath :: string
  BearerAuth :: bool
  ContactName :: string
  ContactEmail :: string
  ContactURL :: string
  LicenseName :: string
  LicenseURL :: string

text \<open>A field a Go composite literal leaves out holds the zero value of its type.\<close>

definition zeroConfig :: Config where
  "zeroConfig =
     \<lparr>Title = [], Description = [], Version = [], Host = [], BasePath = [], Schemes = [],
      AutoDetectHost = False, Enabled = False, UIPath = [], JSONPath = [], BearerAuth = False,
      ContactName = [], ContactEmail = [], ContactURL = [], LicenseName = [],
      LicenseURL = []\<rparr>"

definition NewConfig :: Config where
  "NewConfig =
     zeroConfig\<lparr>Title := ''API'', Description := ''API Documentation'', Version := ''1.0.0'',
       BasePath := ''/'', AutoDetectHost := True, Enabled := True, UIPath := ''/swagger'',
       JSONPath := ''/swagger.json'', BearerAuth := False\<rparr>"

definition DefaultConfig :: Config where
  "DefaultConfig =
     zeroConfig\<lparr>AutoDetectHost := True, Enabled := True, UIPath := ''/swagger'',
       JSONPath := ''/swagger.json''\<rparr>"

section \<open>Dynamic values and the heap of maps\<close>

text \<open>
  A value of type \<^verbatim>\<open>interface{}\<close>. A \<^verbatim>\<open>map[string]interface{}\<close> is a reference: the
  value holds the address of the map, and the heap holds the entries, so that two values can
  name the same map and a write through one is seen through the other. A number decoded
  from JSON is a \<^verbatim>\<open>float64\<close>, kept as its 64 bits. \<^verbatim>\<open>VStrings\<close> is a \<^verbatim>\<open>[]string\<close>, which
  is the type the handler stores under \<^verbatim>\<open>"schemes"\<close>.
\<close>

type_synonym addr = nat

datatype val =
    VNil
  | VBool bool
  | VFloat64 "64 word"
  | VString string
  | VStrings "string list"
  | VSlice "val list"
  | VMap addr

type_synonym entries = "(string \<times> val) list"

record Heap =
  cells :: "addr \<rightharpoonup> entries"
  free :: addr

text \<open>\<^verbatim>\<open>make(map[string]interface{})\<close>: a new, empty map at an address not used before.\<close>

definition make_map :: "Heap \<Rightarrow> addr \<times> Heap" where
  "make_map h = (free h, h\<lparr>cells := (cells h)(free h \<mapsto> []), free := Suc (free h)\<rparr>)"

text \<open>
  The entries stored for the map at an address; reading a key finds its first entry.
  \<^verbatim>\<open>range\<close> visits every key of the map once, with the value the map holds for it, in
  some order.
\<close>

definition entries_of :: "Heap \<Rightarrow> addr \<Rightarrow> entries" where
  "entries_of h a = (case cells h a of None \<Rightarrow> [] | Some m \<Rightarrow> m)"

definition mapaccess :: "Heap \<Rightarrow> addr \<Rightarrow> string \<rightharpoonup> val" where
  "mapaccess h a = map_of (entries_of h a)"

definition range_map :: "Heap \<Rightarrow> addr \<Rightarrow> entries" where
  "range_map h a = AList.clearjunk (entries_of h a)"

text \<open>\<^verbatim>\<open>m[k] = v\<close> for the map at address \<^verbatim>\<open>a\<close>.\<close>

definition mapassign :: "Heap \<Rightarrow> addr \<Rightarrow> string \<Rightarrow> val \<Rightarrow> Heap" where
  "mapassign h a k v = h\<lparr>cells := (cells h)(a \<mapsto> AList.update k v (entries_of h a))\<rparr>"

section \<open>Responses\<close>

text \<open>
  \<^verbatim>\<open>c.JSON(code, obj)\<close> answers with the status code and the JSON encoding of the
  object. The response keeps the object that is encoded: for a map its fields as they are
  when \<^verbatim>\<open>c.JSON\<close> is called, for the typed document the struct.
\<close>

record 'b Response =
  status :: nat
  body :: 'b

definition StatusOK :: nat where
  "StatusOK = 200"

definition StatusInternalServerError :: nat where
  "StatusInternalServerError = 500"

section \<open>Package state\<close>

text \<open>
  The state a call can touch besides its arguments: the package-level variable
  \<^verbatim>\<open>SwagSpec\<close> and the heap of maps.
\<close>

record Package =
  SwagSpec :: val
  heap :: Heap

section \<open>The handler of \<^verbatim>\<open>SetupWithSwag\<close>\<close>

text \<open>
  The closure registered on the JSON route captures \<^verbatim>\<open>swagSpec\<close> and \<^verbatim>\<open>config\<close>; it
  runs once per request, on the state as the request finds it, and returns the state as it
  leaves it.
\<close>

definition swagHandler ::
  "val \<Rightarrow> Config \<Rightarrow> Context \<Rightarrow> environ \<Rightarrow> Package \<Rightarrow> (string \<rightharpoonup> val) Response \<times> Package" where
  "swagHandler swagSpec config c env pkg =
     (case swagSpec of
        VMap specMap \<Rightarrow>
          let (dynamicSpec, h) = make_map (heap pkg);
              h = fold (\<lambda>(k, v) h. mapassign h dynamicSpec k v) (range_map h specMap) h;
              h =
                (if AutoDetectHost config then
                   let h = mapassign h dynamicSpec ''host'' (VString (detectHost c env))
                   in mapassign h dynamicSpec ''schemes'' (VStrings [detectScheme c env])
                 else if Config.Host config \<noteq> [] then
                   let h = mapassign h dynamicSpec ''host'' (VString (Config.Host config))
                   in if length (Config.Schemes config) > 0
                      then mapassign h dynamicSpec ''schemes'' (VStrings (Config.Schemes config))
                      else mapassign h dynamicSpec ''schemes'' (VStrings [detectScheme c env])
                 else h)
          in (\<lparr>status = StatusOK, body = mapaccess h dynamicSpec\<rparr>, pkg\<lparr>heap := h\<rparr>)
      | _ \<Rightarrow>
          (\<lparr>status = StatusInternalServerError,
            body = [''error'' \<mapsto> VString ''Invalid swagger spec'']\<rparr>, pkg))"

section \<open>The typed document and \<^verbatim>\<open>docHandler\<close>\<close>

record Contact =
  Name :: string
  Email :: string
  URL :: string

record License =
  Name :: string
  URL :: string

record Info =
  Title :: string
  Description :: string
  Version :: string
  Contact :: "Contact option"
  License :: "License option"

record SecurityDefinition =
  Type :: string
  In :: string
  Name :: string

record SwaggerSpec =
  Swagger :: string
  Info :: Info
  Host :: string
  BasePath :: string
  Schemes :: "string list"
  Paths :: entries
  Definitions :: entries
  SecurityDefinitions :: "(string \<times> SecurityDefinition) list"

text \<open>
  \<^verbatim>\<open>Swagger\<close> holds two pointers; the struct behind \<^verbatim>\<open>spec\<close> is written by the handler,
  so the handler returns the \<^verbatim>\<open>Swagger\<close> it leaves behind.
\<close>

record Swagger =
  config :: Config
  spec :: SwaggerSpec

definition New :: "Config option \<Rightarrow> Swagger" where
  "New config0 =
     (let config = (case config0 of None \<Rightarrow> DefaultConfig | Some cfg \<Rightarrow> cfg);
          spec =
            \<lparr>Swagger = ''2.0'',
             Info = \<lparr>Info.Title = Config.Title config,
                     Info.Description = Config.Description config,
                     Info.Version = Config.Version config,
                     Contact = None, License = None\<rparr>,
             SwaggerSpec.Host = Config.Host config,
             SwaggerSpec.BasePath = Config.BasePath config,
             SwaggerSpec.Schemes = Config.Schemes config,
             Paths = [], Definitions = [], SecurityDefinitions = []\<rparr>;
          spec =
            (if ContactName config \<noteq> [] \<or> ContactEmail config \<noteq> [] \<or> ContactURL config \<noteq> []
             then spec\<lparr>Info := (Info spec)\<lparr>Contact :=
                    Some \<lparr>Contact.Name = ContactName config, Email = ContactEmail config,
                          Contact.URL = ContactURL config\<rparr>\<rparr>\<rparr>
             else spec);
          spec =
            (if LicenseName config \<noteq> []
             then spec\<lparr>Info := (Info spec)\<lparr>License :=
                    Some \<lparr>License.Name = LicenseName config, License.URL = LicenseURL config\<rparr>\<rparr>\<rparr>
             else spec);
          spec =
            (if BearerAuth config
             then spec\<lparr>SecurityDefinitions :=
                    [(''Bearer'', \<lparr>Type = ''apiKey'', In = ''header'',
                                   SecurityDefinition.Name = ''Authorization''\<rparr>)]\<rparr>
             else spec)
      in \<lparr>config = config, spec = spec\<rparr>)"

definition docHandler ::
  "Swagger \<Rightarrow> Context \<Rightarrow> environ \<Rightarrow> SwaggerSpec Response \<times> Swagger" where
  "docHandler s c env =
     (let s =
        (if AutoDetectHost (config s) then
           let s = s\<lparr>spec := (spec s)\<lparr>SwaggerSpec.Host := detectHost c env\<rparr>\<rparr>
           in s\<lparr>spec := (spec s)\<lparr>SwaggerSpec.Schemes := [detectScheme c env]\<rparr>\<rparr>
         else if Config.Host (config s) \<noteq> [] then
           let s = s\<lparr>spec := (spec s)\<lparr>SwaggerSpec.Host := Config.Host (config s)\<rparr>\<rparr>
           in if length (Config.Schemes (config s)) > 0
              then s\<lparr>spec := (spec s)\<lparr>SwaggerSpec.Schemes := Config.Schemes (config s)\<rparr>\<rparr>
              else s\<lparr>spec := (spec s)\<lparr>SwaggerSpec.Schemes := [detectScheme c env]\<rparr>\<rparr>
         else s)
      in (\<lparr>status = StatusOK, body = spec s\<rparr>, s))"

section \<open>Route registration\<close>

text \<open>
  The router is the web framework's; of it the package uses \<^verbatim>\<open>router.GET\<close>, which adds a
  route. A router is the list of the routes registered on it, each a path and its handler:
  the bound method \<^verbatim>\<open>swagger.docHandler\<close>, the closure of \<^verbatim>\<open>SetupWithSwag\<close> over
  \<^verbatim>\<open>swagSpec\<close> and \<^verbatim>\<open>config\<close>, or the UI handler \<^verbatim>\<open>ginSwagger.WrapHandler\<close> with the URL
  option it was given, if any.
\<close>

datatype HandlerFunc =
    DocHandler Swagger
  | SwagHandler val Config
  | WrapHandler "string option"

type_synonym Engine = "(string \<times> HandlerFunc) list"

definition GET :: "Engine \<Rightarrow> string \<Rightarrow> HandlerFunc \<Rightarrow> Engine" where
  "GET router relativePath handler = router @ [(relativePath, handler)]"

text \<open>Reading a field through a nil pointer panics.\<close>

datatype panic = NilPointerDereference

text \<open>\<^verbatim>\<open>Setup\<close> of \<^verbatim>\<open>swagger.go\<close>, the entry point that registers \<^verbatim>\<open>docHandler\<close>.\<close>

definition Setup :: "Engine \<Rightarrow> Config option \<Rightarrow> panic + Engine" where
  "Setup router config0 =
     (let swagger = New config0 in
      case config0 of
        None \<Rightarrow> Inl NilPointerDereference
      | Some cfg \<Rightarrow>
          if \<not> Enabled cfg then Inr router
          else
            let router = GET router (JSONPath cfg) (DocHandler swagger);
                url = JSONPath cfg
            in Inr (GET router (UIPath cfg @ ''/*any'') (WrapHandler (Some url))))"

definition SetupWithSwag ::
  "Engine \<Rightarrow> val \<Rightarrow> Config option \<Rightarrow> Package \<Rightarrow> Engine \<times> Package" where
  "SetupWithSwag router swagSpec config0 pkg =
     (let config = (case config0 of None \<Rightarrow> DefaultConfig | Some cfg \<Rightarrow> cfg) in
      if \<not> Enabled config then (router, pkg)
      else
        let pkg = pkg\<lparr>SwagSpec := swagSpec\<rparr>;
            router = GET router (JSONPath config) (SwagHandler swagSpec config);
            url = JSONPath config
        in (GET router (UIPath config @ ''/*any'') (WrapHandler (Some url)), pkg))"

text \<open>
  \<^verbatim>\<open>json.Unmarshal\<close> is the Go library's: it is a parameter of the functions that call it.
  It checks the whole text before it decodes anything, so a failure leaves the heap as it
  was; a success returns the decoded value and the heap with the maps it allocated.
\<close>

datatype error = UnmarshalError string | ErrNotSupported

type_synonym Unmarshal = "string \<Rightarrow> Heap \<Rightarrow> error + val \<times> Heap"

definition LoadSwagDocs ::
  "Unmarshal \<Rightarrow> string \<Rightarrow> Package \<Rightarrow> (val \<times> error option) \<times> Package" where
  "LoadSwagDocs unmarshal docJSON pkg =
     (case unmarshal docJSON (heap pkg) of
        Inl err \<Rightarrow> ((VNil, Some err), pkg)
      | Inr (parsed, h) \<Rightarrow> ((parsed, None), pkg\<lparr>heap := h\<rparr>))"

text \<open>
  \<^verbatim>\<open>SetupFromDocs\<close>: \<^verbatim>\<open>swaggerInfo\<close> is \<^verbatim>\<open>Some doc\<close> when the value has a method
  \<^verbatim>\<open>ReadDoc\<close>, \<^verbatim>\<open>doc\<close> being what the method returns, and \<^verbatim>\<open>None\<close> when it has not.
\<close>

definition SetupFromDocs ::
  "Unmarshal \<Rightarrow> Engine \<Rightarrow> string option \<Rightarrow> Config option \<Rightarrow> Package
     \<Rightarrow> (Engine \<times> error option) \<times> Package" where
  "SetupFromDocs unmarshal router swaggerInfo config0 pkg =
     (let config = (case config0 of None \<Rightarrow> DefaultConfig | Some cfg \<Rightarrow> cfg) in
      case swaggerInfo of
        None \<Rightarrow> ((router, Some ErrNotSupported), pkg)
      | Some doc \<Rightarrow>
          (case LoadSwagDocs unmarshal doc pkg of
             ((swagSpec, Some err), pkg) \<Rightarrow> ((router, Some err), pkg)
           | ((swagSpec, None), pkg) \<Rightarrow>
               let (router, pkg) = SetupWithSwag router swagSpec (Some config) pkg
               in ((router, None), pkg)))"

text \<open>
  \<^verbatim>\<open>Setup\<close> as the other version of the integration file has it
  (\<^verbatim>\<open>src/unnamed/part_002\<close>): it registers the UI route and returns no error.
\<close>

definition Setup_part_002 :: "Engine \<Rightarrow> Config option \<Rightarrow> Engine \<times> error option" where
  "Setup_part_002 router config0 =
     (let config = (case config0 of None \<Rightarrow> DefaultConfig | Some cfg \<Rightarrow> cfg)
      in (GET router (UIPath config @ ''/*any'') (WrapHandler None), None))"

section \<open>The precedence orders, as the specification words them\<close>

text \<open>
  ``First non-empty wins'': the first candidate that is not the empty string, or the
  fallback when there is none.
\<close>

fun first_nonempty :: "string list \<Rightarrow> string \<Rightarrow> string" where
  "first_nonempty [] fallback = fallback"
| "first_nonempty (x # xs) fallback = (if x \<noteq> [] then x else first_nonempty xs fallback)"

text \<open>
  The candidates of host resolution in the order the specification lists them: the
  forwarded-host header, the request's own host, then the four environment variables.
\<close>

definition host_candidates :: "Context \<Rightarrow> environ \<Rightarrow> string list" where
  "host_candidates c env =
     [Get (Header (Request c)) ''X-Forwarded-Host'',
      Request.Host (Request c),
      Getenv env ''RAILWAY_STATIC_URL'',
      Getenv env ''RAILWAY_PUBLIC_DOMAIN'',
      Getenv env ''API_HOST'',
      Getenv env ''API_URL'']"

text \<open>
  Serve as the specification words it, on the fields of the held document: the fields are
  those of the document, with host and schemes overwritten by the resolver's if
  auto-detection is enabled, and by the manual host and schemes if it is disabled and a
  manual host is set, the scheme falling back on the resolver's when no manual scheme is set.
\<close>

definition spec_Serve :: "Config \<Rightarrow> Context \<Rightarrow> environ \<Rightarrow> (string \<rightharpoonup> val) \<Rightarrow> (string \<rightharpoonup> val)" where
  "spec_Serve cfg c env doc =
     (if AutoDetectHost cfg then
        doc(''host'' \<mapsto> VString (detectHost c env),
            ''schemes'' \<mapsto> VStrings [detectScheme c env])
      else if Config.Host cfg \<noteq> [] then
        doc(''host'' \<mapsto> VString (Config.Host cfg),
            ''schemes'' \<mapsto> VStrings (if Config.Schemes cfg \<noteq> [] then Config.Schemes cfg
                                    else [detectScheme c env]))
      else doc)"

section \<open>Sample requests and environments\<close>

definition env_none :: environ where
  "env_none = Map.empty"

definition env_api :: environ where
  "env_api = [''API_HOST'' \<mapsto> ''api.internal'', ''API_URL'' \<mapsto> ''https://api.internal'']"

text \<open>A plain request: no header, the given host, no TLS.\<close>

definition ctx_host :: "string \<Rightarrow> Context" where
  "ctx_host h = \<lparr>Request = \<lparr>Header = Map.empty, Request.Host = h, TLS = None\<rparr>\<rparr>"

text \<open>A request that a proxy forwarded: the forwarded host in the header.\<close>

definition ctx_forwarded :: "string \<Rightarrow> string \<Rightarrow> Context" where
  "ctx_forwarded fwd h =
     \<lparr>Request = \<lparr>Header = [''X-Forwarded-Host'' \<mapsto> [fwd]], Request.Host = h, TLS = None\<rparr>\<rparr>"

definition env_production :: environ where
  "env_production = [''ENV'' \<mapsto> ''production'']"

definition env_staging :: environ where
  "env_staging = [''ENV'' \<mapsto> ''staging'']"

text \<open>A request over TLS that also carries a forwarded protocol.\<close>

definition ctx_tls :: Context where
  "ctx_tls =
     \<lparr>Request = \<lparr>Header = [''X-Forwarded-Proto'' \<mapsto> [''http'']], Request.Host = ''localhost:8443'',
         TLS = Some ConnectionState\<rparr>\<rparr>"

text \<open>A request without TLS that carries a forwarded protocol.\<close>

definition ctx_proto :: "string \<Rightarrow> string \<Rightarrow> Context" where
  "ctx_proto proto h =
     \<lparr>Request = \<lparr>Header = [''X-Forwarded-Proto'' \<mapsto> [proto]], Request.Host = h, TLS = None\<rparr>\<rparr>"

section \<open>Sample configurations, documents and parsers\<close>

text \<open>
  A state that holds one document, at address 0, and nothing in \<^verbatim>\<open>SwagSpec\<close>.
\<close>

definition pkg_doc :: Package where
  "pkg_doc =
     \<lparr>SwagSpec = VNil,
      heap = \<lparr>cells = [0 \<mapsto> [(''swagger'', VString ''2.0''),
                             (''host'', VString ''localhost:8080''),
                             (''basePath'', VString ''/api'')]],
              free = 1\<rparr>\<rparr>"


text \<open>The defaults, with the service disabled.\<close>

definition cfg_disabled :: Config where
  "cfg_disabled = DefaultConfig\<lparr>Enabled := False\<rparr>"

text \<open>The \<^verbatim>\<open>Swagger\<close> that \<^verbatim>\<open>Setup\<close> builds from \<^verbatim>\<open>NewConfig()\<close>.\<close>

definition swagger_auto :: Swagger where
  "swagger_auto = New (Some NewConfig)"


section \<open>Facts about the library functions\<close>

lemma Split_not_Nil: "Split s sep \<noteq> []"
  by (induction s) (auto split: list.splits)

lemma HasSuffix_iff: "HasSuffix s suf \<longleftrightarrow> (\<exists>p. s = p @ suf)"
proof
  assume "HasSuffix s suf"
  then have "s = take (length s - length suf) s @ suf"
    by (metis HasSuffix_def append_take_drop_id)
  then show "\<exists>p. s = p @ suf" ..
next
  assume "\<exists>p. s = p @ suf"
  then show "HasSuffix s suf"
    by (auto simp: HasSuffix_def)
qed

lemma Contains_iff: "Contains s substr \<longleftrightarrow> (\<exists>p q. s = p @ substr @ q)"
proof (induction s)
  case Nil
  then show ?case by auto
next
  case (Cons c s)
  have "take (length substr) (c # s) = substr \<longleftrightarrow> (\<exists>q. c # s = substr @ q)"
    by (metis append_eq_conv_conj append_take_drop_id)
  moreover have "(\<exists>p q. c # s = p @ substr @ q) \<longleftrightarrow>
      (\<exists>q. c # s = substr @ q) \<or> (\<exists>p q. s = p @ substr @ q)"
  proof
    assume "\<exists>p q. c # s = p @ substr @ q"
    then obtain p q where pq: "c # s = p @ substr @ q" by blast
    show "(\<exists>q. c # s = substr @ q) \<or> (\<exists>p q. s = p @ substr @ q)"
    proof (cases p)
      case Nil
      with pq show ?thesis by auto
    next
      case (Cons a p')
      with pq have "s = p' @ substr @ q" by simp
      then show ?thesis by blast
    qed
  next
    assume "(\<exists>q. c # s = substr @ q) \<or> (\<exists>p q. s = p @ substr @ q)"
    then show "\<exists>p q. c # s = p @ substr @ q"
    proof
      assume "\<exists>q. c # s = substr @ q"
      then obtain q where "c # s = [] @ substr @ q" by auto
      then show ?thesis by blast
    next
      assume "\<exists>p q. s = p @ substr @ q"
      then obtain p q where "c # s = (c # p) @ substr @ q" by auto
      then show ?thesis by blast
    qed
  qed
  ultimately show ?case using Cons.IH by simp
qed

lemma Split_no_sep: "sep \<notin> set p \<Longrightarrow> Split (p @ sep # rest) sep ! 0 = p"
  by (induction p) (auto split: list.splits simp: Split_not_Nil)

lemma HasSuffix_suffix: "HasSuffix s suf \<longleftrightarrow> suffix suf s"
  by (simp add: HasSuffix_iff suffix_def)

lemma Contains_sublist: "Contains s substr \<longleftrightarrow> sublist substr s"
  by (simp add: Contains_iff sublist_def)

lemma Split_prefix: "\<exists>r. s = Split s sep ! 0 @ r"
  by (induction s) (auto split: list.splits simp: Split_not_Nil)

lemma Contains_Split: "Contains (Split s sep ! 0) substr \<Longrightarrow> Contains s substr"
  by (metis Contains_iff Split_prefix append.assoc)

section \<open>Facts about the heap and the handler of \<^verbatim>\<open>SetupWithSwag\<close>\<close>

lemma mapaccess_mapassign: "mapaccess (mapassign h a k v) a = (mapaccess h a)(k \<mapsto> v)"
  by (simp add: mapaccess_def mapassign_def entries_of_def update_conv')

lemma cells_mapassign_other: "a' \<noteq> a \<Longrightarrow> cells (mapassign h a k v) a' = cells h a'"
  by (simp add: mapassign_def)

lemma free_mapassign: "free (mapassign h a k v) = free h"
  by (simp add: mapassign_def)

lemma fold_mapassign_other:
  "a' \<noteq> d \<Longrightarrow> cells (fold (\<lambda>(k, v) h. mapassign h d k v) es h) a' = cells h a'"
  by (induction es arbitrary: h) (auto simp: cells_mapassign_other)

lemma fold_mapassign_free: "free (fold (\<lambda>(k, v) h. mapassign h d k v) es h) = free h"
  by (induction es arbitrary: h) (auto simp: free_mapassign)

lemma fold_mapassign_copy:
  "distinct (map fst es) \<Longrightarrow>
   mapaccess (fold (\<lambda>(k, v) h. mapassign h d k v) es h) d = mapaccess h d ++ map_of es"
proof (induction es arbitrary: h)
  case Nil
  then show ?case by simp
next
  case (Cons e es)
  obtain k v where e: "e = (k, v)" by (cases e)
  from Cons.prems e have notin: "k \<notin> fst ` set es" and d: "distinct (map fst es)"
    by auto
  have "mapaccess (fold (\<lambda>(k, v) h. mapassign h d k v) (e # es) h) d
      = mapaccess (mapassign h d k v) d ++ map_of es"
    using Cons.IH[OF d, of "mapassign h d k v"] e by simp
  also have "\<dots> = (mapaccess h d)(k \<mapsto> v) ++ map_of es"
    by (simp only: mapaccess_mapassign)
  also have "\<dots> = mapaccess h d ++ (map_of es)(k \<mapsto> v)"
    using notin by (simp add: map_add_upd_left dom_map_of_conv_image_fst)
  also have "\<dots> = mapaccess h d ++ map_of (e # es)"
    using e by simp
  finally show ?case .
qed

lemma clone_fields:
  assumes "a \<noteq> free h"
  shows "mapaccess
           (fold (\<lambda>(k, v) h'. mapassign h' (free h) k v)
              (range_map (h\<lparr>cells := (cells h)(free h \<mapsto> []), free := Suc (free h)\<rparr>) a)
              (h\<lparr>cells := (cells h)(free h \<mapsto> []), free := Suc (free h)\<rparr>))
           (free h)
         = mapaccess h a"
proof -
  let ?h1 = "h\<lparr>cells := (cells h)(free h \<mapsto> []), free := Suc (free h)\<rparr>"
  have r: "range_map ?h1 a = AList.clearjunk (entries_of h a)"
    using assms by (simp add: range_map_def entries_of_def)
  have "mapaccess (fold (\<lambda>(k, v) h'. mapassign h' (free h) k v) (range_map ?h1 a) ?h1) (free h)
      = mapaccess ?h1 (free h) ++ map_of (AList.clearjunk (entries_of h a))"
    unfolding r by (rule fold_mapassign_copy) simp
  also have "\<dots> = mapaccess h a"
    by (simp add: mapaccess_def entries_of_def map_of_clearjunk)
  finally show ?thesis .
qed

lemma swagHandler_not_map:
  assumes "\<forall>a. swagSpec \<noteq> VMap a"
  shows "swagHandler swagSpec cfg c env pkg =
      (\<lparr>status = StatusInternalServerError,
        body = [''error'' \<mapsto> VString ''Invalid swagger spec'']\<rparr>, pkg)"
  using assms by (cases swagSpec) (simp_all add: swagHandler_def)

lemma swagHandler_response:
  assumes "a \<noteq> free (heap pkg)"
  shows "fst (swagHandler (VMap a) cfg c env pkg) =
      \<lparr>status = StatusOK, body = spec_Serve cfg c env (mapaccess (heap pkg) a)\<rparr>"
  using assms
  by (simp add: swagHandler_def make_map_def Let_def spec_Serve_def mapaccess_mapassign
      clone_fields)

lemma swagHandler_cells:
  assumes "a' \<noteq> free (heap pkg)"
  shows "cells (heap (snd (swagHandler swagSpec cfg c env pkg))) a' = cells (heap pkg) a'"
  using assms
  by (cases swagSpec)
    (simp_all add: swagHandler_def make_map_def Let_def cells_mapassign_other
      fold_mapassign_other)

lemma swagHandler_SwagSpec:
  "SwagSpec (snd (swagHandler swagSpec cfg c env pkg)) = SwagSpec pkg"
  by (cases swagSpec) (simp_all add: swagHandler_def make_map_def Let_def)

lemma swagHandler_free:
  "free (heap (snd (swagHandler swagSpec cfg c env pkg))) \<ge> free (heap pkg)"
  by (cases swagSpec)
    (simp_all add: swagHandler_def make_map_def Let_def free_mapassign fold_mapassign_free)

lemma swagHandler_base_unchanged:
  assumes "a < free (heap pkg)"
  shows "cells (heap (snd (swagHandler swagSpec cfg c env pkg))) a = cells (heap pkg) a
     \<and> SwagSpec (snd (swagHandler swagSpec cfg c env pkg)) = SwagSpec pkg"
  using assms swagHandler_cells[of a pkg] swagHandler_SwagSpec by simp

lemma swagHandler_repeat:
  assumes "a < free (heap pkg)"
  shows "fst (swagHandler (VMap a) cfg c' env' (snd (swagHandler (VMap a) cfg c env pkg)))
     = fst (swagHandler (VMap a) cfg c' env' pkg)"
proof -
  let ?pkg' = "snd (swagHandler (VMap a) cfg c env pkg)"
  have "a < free (heap ?pkg')"
    using assms swagHandler_free[of pkg "VMap a" cfg c env] by simp
  moreover have "mapaccess (heap ?pkg') a = mapaccess (heap pkg) a"
    using swagHandler_base_unchanged[OF assms, of "VMap a" cfg c env]
    by (simp add: mapaccess_def entries_of_def)
  ultimately show ?thesis
    using assms by (simp add: swagHandler_response)
qed

lemma docHandler_auto:
  assumes "AutoDetectHost (config s)"
  shows "docHandler s c env =
      (\<lparr>status = StatusOK,
        body = (spec s)\<lparr>SwaggerSpec.Host := detectHost c env,
                 SwaggerSpec.Schemes := [detectScheme c env]\<rparr>\<rparr>,
       s\<lparr>spec := (spec s)\<lparr>SwaggerSpec.Host := detectHost c env,
                 SwaggerSpec.Schemes := [detectScheme c env]\<rparr>\<rparr>)"
  using assms by (simp add: docHandler_def Let_def)


lemma config_New: "config (New (Some cfg)) = cfg"
  by (simp add: New_def Let_def)



section \<open>Host resolution\<close>

lemma detectHost_eq:
  assumes "Get (Header (Request c)) ''X-Forwarded-Host'' \<noteq> [] \<or>
       \<not> (suffix '':80'' (Request.Host (Request c)) \<or>
          suffix '':443'' (Request.Host (Request c)))"
  shows "detectHost c env = first_nonempty (host_candidates c env) ''localhost:8080''"
  using assms
  by (auto simp: detectHost_def host_candidates_def Let_def HasSuffix_suffix)

lemma detectHost_strip:
  assumes "Get (Header (Request c)) ''X-Forwarded-Host'' = []"
    and "CHR '':'' \<notin> set p"
    and "Request.Host (Request c) = p @ '':80'' \<or> Request.Host (Request c) = p @ '':443''"
  shows "detectHost c env = p"
proof -
  let ?h = "Request.Host (Request c)"
  from assms(3) have suf: "HasSuffix ?h '':80'' \<or> HasSuffix ?h '':443''"
    by (auto simp: HasSuffix_iff)
  from assms(3) have ne: "?h \<noteq> []" by auto
  from assms(2,3) have "Split ?h (CHR '':'') ! 0 = p"
    using Split_no_sep[of "CHR '':''" p] by auto
  with suf ne assms(1) show ?thesis
    by (simp add: detectHost_def Let_def)
qed

text \<open>
  C2, as amended. Host resolution takes the first non-empty of: the
  \<^verbatim>\<open>X-Forwarded-Host\<close> header, the request's own \<^verbatim>\<open>Host\<close>, the environment variables
  \<^verbatim>\<open>RAILWAY_STATIC_URL\<close>, \<^verbatim>\<open>RAILWAY_PUBLIC_DOMAIN\<close>, \<^verbatim>\<open>API_HOST\<close>, \<^verbatim>\<open>API_URL\<close> in that
  order, and else the literal \<^verbatim>\<open>localhost:8080\<close>; it returns the winner as it is whenever
  the header is present or the request's host does not end in \<^verbatim>\<open>:80\<close> or \<^verbatim>\<open>:443\<close>. When
  the header is absent and the request's host is \<^verbatim>\<open>p:80\<close> or \<^verbatim>\<open>p:443\<close> with no colon in
  \<^verbatim>\<open>p\<close>, the result is \<^verbatim>\<open>p\<close>, whatever the environment holds. There is no error
  outcome: the one index the function takes, element 0 of the split host, is in range.
\<close>

theorem detectHost_precedence:
  "(Get (Header (Request c)) ''X-Forwarded-Host'' \<noteq> [] \<or>
      \<not> (suffix '':80'' (Request.Host (Request c)) \<or>
         suffix '':443'' (Request.Host (Request c)))
    \<longrightarrow> detectHost c env = first_nonempty (host_candidates c env) ''localhost:8080'')
   \<and> (Get (Header (Request c)) ''X-Forwarded-Host'' = [] \<and> CHR '':'' \<notin> set p \<and>
      (Request.Host (Request c) = p @ '':80'' \<or> Request.Host (Request c) = p @ '':443'')
    \<longrightarrow> detectHost c env = p)
   \<and> 0 < length (Split (Request.Host (Request c)) (CHR '':''))"
  using detectHost_eq detectHost_strip Split_not_Nil by blast

text \<open>
  The amended C2 at five requests: a forwarded host beats everything; a host with another
  port is returned whole and beats the environment; with no host \<^verbatim>\<open>API_HOST\<close> beats
  \<^verbatim>\<open>API_URL\<close>; with nothing set the fallback is returned; and \<^verbatim>\<open>:443\<close> is stripped.
\<close>

theorem detectHost_precedence_witness:
  "detectHost (ctx_forwarded ''docs.example.com'' ''10.0.0.5:80'') env_api = ''docs.example.com''
   \<and> detectHost (ctx_host ''api.example.com:8080'') env_api = ''api.example.com:8080''
   \<and> detectHost (ctx_host []) env_api = ''api.internal''
   \<and> detectHost (ctx_host []) env_none = ''localhost:8080''
   \<and> detectHost (ctx_host ''api.example.com:443'') env_none = ''api.example.com''"
  using detectHost_precedence[of "ctx_forwarded ''docs.example.com'' ''10.0.0.5:80''" env_api]
    detectHost_precedence[of "ctx_host ''api.example.com:8080''" env_api]
    detectHost_precedence[of "ctx_host []" env_api]
    detectHost_precedence[of "ctx_host []" env_none]
    detectHost_precedence[of "ctx_host ''api.example.com:443''" env_none "''api.example.com''"]
  by (simp add: ctx_forwarded_def ctx_host_def env_api_def env_none_def Get_def Getenv_def
      HasSuffix_suffix[symmetric] HasSuffix_def host_candidates_def)

text \<open>
  C2 as stated fails: with no forwarded-host header the request's own host
  \<^verbatim>\<open>example.com:80\<close> is the first non-empty candidate, and the resolved host is
  \<^verbatim>\<open>example.com\<close>, not that value.
\<close>

theorem detectHost_port_counterexample:
  "detectHost (ctx_host ''example.com:80'') env_none = ''example.com''
   \<and> first_nonempty (host_candidates (ctx_host ''example.com:80'') env_none) ''localhost:8080''
       = ''example.com:80''"
  by (simp add: detectHost_def ctx_host_def env_none_def Get_def Getenv_def HasSuffix_def
      host_candidates_def)

text \<open>
  C6. The request's host \<^verbatim>\<open>[::1]:80\<close> ends in \<^verbatim>\<open>:80\<close>; with the port suffix removed it
  would be \<^verbatim>\<open>[::1]\<close>. \<^verbatim>\<open>detectHost\<close> returns what stands before the first colon: \<^verbatim>\<open>[\<close>.
\<close>

theorem detectHost_ipv6:
  "Get (Header (Request (ctx_host ''[::1]:80''))) ''X-Forwarded-Host'' = []
   \<and> Request.Host (Request (ctx_host ''[::1]:80'')) = ''[::1]'' @ '':80''
   \<and> detectHost (ctx_host ''[::1]:80'') env_none = ''[''"
  by (simp add: detectHost_def ctx_host_def env_none_def Get_def HasSuffix_def)

section \<open>Scheme resolution\<close>

text \<open>
  C3. Scheme resolution, first match winning: (1) a TLS connection gives \<^verbatim>\<open>https\<close>;
  (2) otherwise a non-empty \<^verbatim>\<open>X-Forwarded-Proto\<close> header is returned as it is; (3) otherwise
  a host that contains \<^verbatim>\<open>.railway.app\<close> or \<^verbatim>\<open>.up.railway.app\<close> gives \<^verbatim>\<open>https\<close>, the host
  being the request's own \<^verbatim>\<open>Host\<close> value; (4) otherwise \<^verbatim>\<open>ENV\<close> equal to \<^verbatim>\<open>production\<close> or
  \<^verbatim>\<open>staging\<close> gives \<^verbatim>\<open>https\<close>; (5) otherwise the result is \<^verbatim>\<open>http\<close>.
\<close>

theorem detectScheme_precedence:
  "(TLS (Request c) \<noteq> None \<longrightarrow> detectScheme c env = ''https'')
   \<and> (TLS (Request c) = None \<and> Get (Header (Request c)) ''X-Forwarded-Proto'' \<noteq> []
      \<longrightarrow> detectScheme c env = Get (Header (Request c)) ''X-Forwarded-Proto'')
   \<and> (TLS (Request c) = None \<and> Get (Header (Request c)) ''X-Forwarded-Proto'' = [] \<and>
      (sublist ''.railway.app'' (Request.Host (Request c)) \<or>
       sublist ''.up.railway.app'' (Request.Host (Request c)))
      \<longrightarrow> detectScheme c env = ''https'')
   \<and> (TLS (Request c) = None \<and> Get (Header (Request c)) ''X-Forwarded-Proto'' = [] \<and>
      \<not> sublist ''.railway.app'' (Request.Host (Request c)) \<and>
      \<not> sublist ''.up.railway.app'' (Request.Host (Request c)) \<and>
      (Getenv env ''ENV'' = ''production'' \<or> Getenv env ''ENV'' = ''staging'')
      \<longrightarrow> detectScheme c env = ''https'')
   \<and> (TLS (Request c) = None \<and> Get (Header (Request c)) ''X-Forwarded-Proto'' = [] \<and>
      \<not> sublist ''.railway.app'' (Request.Host (Request c)) \<and>
      \<not> sublist ''.up.railway.app'' (Request.Host (Request c)) \<and>
      Getenv env ''ENV'' \<noteq> ''production'' \<and> Getenv env ''ENV'' \<noteq> ''staging''
      \<longrightarrow> detectScheme c env = ''http'')"
  by (simp add: detectScheme_def Contains_sublist Let_def)

text \<open>
  C3 at one request per rule: TLS beats a forwarded \<^verbatim>\<open>http\<close>; a forwarded protocol is
  returned as it is and beats the host and the environment; a Railway host; \<^verbatim>\<open>staging\<close>;
  and the default.
\<close>

theorem detectScheme_precedence_witness:
  "detectScheme ctx_tls env_none = ''https''
   \<and> detectScheme (ctx_proto ''wss'' ''api.railway.app'') env_production = ''wss''
   \<and> detectScheme (ctx_host ''api.railway.app'') env_none = ''https''
   \<and> detectScheme (ctx_host ''localhost:8080'') env_staging = ''https''
   \<and> detectScheme (ctx_host ''localhost:8080'') env_none = ''http''"
  using detectScheme_precedence[of ctx_tls env_none]
    detectScheme_precedence[of "ctx_proto ''wss'' ''api.railway.app''" env_production]
    detectScheme_precedence[of "ctx_host ''api.railway.app''" env_none]
    detectScheme_precedence[of "ctx_host ''localhost:8080''" env_staging]
    detectScheme_precedence[of "ctx_host ''localhost:8080''" env_none]
  by (simp add: ctx_tls_def ctx_proto_def ctx_host_def env_none_def env_production_def
      env_staging_def Get_def Getenv_def Contains_sublist[symmetric])

lemma detectHost_from_Host:
  assumes "Get (Header (Request c)) ''X-Forwarded-Host'' = []"
    and "Request.Host (Request c) \<noteq> []"
    and "Contains (detectHost c env) substr"
  shows "Contains (Request.Host (Request c)) substr"
  using assms by (auto simp: detectHost_def Let_def dest: Contains_Split split: if_splits)

text \<open>
  C4, as amended. For every request with TLS off and no \<^verbatim>\<open>X-Forwarded-Proto\<close> header: if
  the request's own \<^verbatim>\<open>Host\<close> value contains \<^verbatim>\<open>.railway.app\<close> or \<^verbatim>\<open>.up.railway.app\<close>, the
  resolved scheme is \<^verbatim>\<open>https\<close>; and so it is if the resolved host contains one of them and
  was taken from the request's own \<^verbatim>\<open>Host\<close> value (no \<^verbatim>\<open>X-Forwarded-Host\<close> header, \<^verbatim>\<open>Host\<close>
  not empty).
\<close>

theorem detectScheme_cloud_host:
  "(TLS (Request c) = None \<and> Get (Header (Request c)) ''X-Forwarded-Proto'' = [] \<and>
      (sublist ''.railway.app'' (Request.Host (Request c)) \<or>
       sublist ''.up.railway.app'' (Request.Host (Request c)))
      \<longrightarrow> detectScheme c env = ''https'')
   \<and> (TLS (Request c) = None \<and> Get (Header (Request c)) ''X-Forwarded-Proto'' = [] \<and>
      Get (Header (Request c)) ''X-Forwarded-Host'' = [] \<and> Request.Host (Request c) \<noteq> [] \<and>
      (sublist ''.railway.app'' (detectHost c env) \<or>
       sublist ''.up.railway.app'' (detectHost c env))
      \<longrightarrow> detectScheme c env = ''https'')"
proof (intro conjI impI)
  assume "TLS (Request c) = None \<and> Get (Header (Request c)) ''X-Forwarded-Proto'' = [] \<and>
      (sublist ''.railway.app'' (Request.Host (Request c)) \<or>
       sublist ''.up.railway.app'' (Request.Host (Request c)))"
  then show "detectScheme c env = ''https''"
    by (simp add: detectScheme_def Contains_sublist Let_def)
next
  assume a: "TLS (Request c) = None \<and> Get (Header (Request c)) ''X-Forwarded-Proto'' = [] \<and>
      Get (Header (Request c)) ''X-Forwarded-Host'' = [] \<and> Request.Host (Request c) \<noteq> [] \<and>
      (sublist ''.railway.app'' (detectHost c env) \<or>
       sublist ''.up.railway.app'' (detectHost c env))"
  then have "Contains (Request.Host (Request c)) ''.railway.app'' \<or>
      Contains (Request.Host (Request c)) ''.up.railway.app''"
    using detectHost_from_Host[of c] by (auto simp: Contains_sublist[symmetric])
  with a show "detectScheme c env = ''https''"
    by (simp add: detectScheme_def Let_def)
qed

text \<open>
  The amended C4 at the request for \<^verbatim>\<open>api.up.railway.app:443\<close>: the resolved host is
  \<^verbatim>\<open>api.up.railway.app\<close>, taken from the request's host, and the scheme is \<^verbatim>\<open>https\<close>.
\<close>

theorem detectScheme_cloud_host_witness:
  "detectScheme (ctx_host ''api.up.railway.app:443'') env_none = ''https''
   \<and> sublist ''.railway.app'' (detectHost (ctx_host ''api.up.railway.app:443'') env_none)"
proof -
  have h: "detectHost (ctx_host ''api.up.railway.app:443'') env_none = ''api.up.railway.app''"
    by (simp add: detectHost_def ctx_host_def env_none_def Get_def HasSuffix_def)
  have s: "sublist ''.railway.app'' ''api.up.railway.app''"
    by (simp add: Contains_sublist[symmetric])
  show ?thesis
    using detectScheme_cloud_host[of "ctx_host ''api.up.railway.app:443''" env_none] h s
    by (simp add: ctx_host_def Get_def)
qed

text \<open>
  C4 as stated fails: a request without TLS and without \<^verbatim>\<open>X-Forwarded-Proto\<close> that a proxy
  forwarded for \<^verbatim>\<open>app.up.railway.app\<close> to \<^verbatim>\<open>10.0.0.5:8080\<close> resolves to the host
  \<^verbatim>\<open>app.up.railway.app\<close>, which contains the suffix, and to the scheme \<^verbatim>\<open>http\<close>.
\<close>

theorem detectScheme_resolved_host_counterexample:
  "TLS (Request (ctx_forwarded ''app.up.railway.app'' ''10.0.0.5:8080'')) = None
   \<and> Get (Header (Request (ctx_forwarded ''app.up.railway.app'' ''10.0.0.5:8080'')))
        ''X-Forwarded-Proto'' = []
   \<and> sublist ''.up.railway.app''
        (detectHost (ctx_forwarded ''app.up.railway.app'' ''10.0.0.5:8080'') env_none)
   \<and> detectScheme (ctx_forwarded ''app.up.railway.app'' ''10.0.0.5:8080'') env_none = ''http''"
proof -
  have "detectHost (ctx_forwarded ''app.up.railway.app'' ''10.0.0.5:8080'') env_none
      = ''app.up.railway.app''"
    by (simp add: detectHost_def ctx_forwarded_def Get_def)
  moreover have "sublist ''.up.railway.app'' ''app.up.railway.app''"
    by (simp add: Contains_sublist[symmetric])
  ultimately show ?thesis
    by (simp add: detectScheme_def ctx_forwarded_def env_none_def Get_def Getenv_def)
qed

section \<open>Serving the document\<close>

text \<open>
  C9. For every request to the handler of \<^verbatim>\<open>SetupWithSwag\<close>: if the held document is not
  a \<^verbatim>\<open>map[string]interface{}\<close>, the response is status 500 with the error object as its
  body and nothing else, the state is left as it was, and so a later request is served as
  if this one had not been; if the held document is such a map (allocated before the
  request), the response has status 200 and its body is the document: every field other
  than \<^verbatim>\<open>host\<close> and \<^verbatim>\<open>schemes\<close> is the document's, and all fields are when neither
  auto-detection nor a manual host applies.
\<close>

theorem swagHandler_outcome:
  "((\<forall>a. swagSpec \<noteq> VMap a) \<longrightarrow>
      swagHandler swagSpec cfg c env pkg =
        (\<lparr>status = 500, body = [''error'' \<mapsto> VString ''Invalid swagger spec'']\<rparr>, pkg)
      \<and> swagHandler swagSpec cfg c' env' (snd (swagHandler swagSpec cfg c env pkg)) =
          swagHandler swagSpec cfg c' env' pkg)
   \<and> (swagSpec = VMap a \<and> a < free (heap pkg) \<longrightarrow>
      status (fst (swagHandler swagSpec cfg c env pkg)) = 200
      \<and> (\<forall>k. k \<noteq> ''host'' \<and> k \<noteq> ''schemes'' \<longrightarrow>
            body (fst (swagHandler swagSpec cfg c env pkg)) k = mapaccess (heap pkg) a k)
      \<and> (\<not> AutoDetectHost cfg \<and> Config.Host cfg = [] \<longrightarrow>
            body (fst (swagHandler swagSpec cfg c env pkg)) = mapaccess (heap pkg) a))"
proof (intro conjI impI)
  assume n: "\<forall>a. swagSpec \<noteq> VMap a"
  show "swagHandler swagSpec cfg c env pkg =
      (\<lparr>status = 500, body = [''error'' \<mapsto> VString ''Invalid swagger spec'']\<rparr>, pkg)"
    using swagHandler_not_map[OF n] by (simp add: StatusInternalServerError_def)
  show "swagHandler swagSpec cfg c' env' (snd (swagHandler swagSpec cfg c env pkg)) =
      swagHandler swagSpec cfg c' env' pkg"
    using swagHandler_not_map[OF n] by simp
next
  assume m: "swagSpec = VMap a \<and> a < free (heap pkg)"
  then have r: "fst (swagHandler swagSpec cfg c env pkg) =
      \<lparr>status = StatusOK, body = spec_Serve cfg c env (mapaccess (heap pkg) a)\<rparr>"
    using swagHandler_response[of a pkg] by simp
  show "status (fst (swagHandler swagSpec cfg c env pkg)) = 200"
    by (simp add: r StatusOK_def)
  show "\<forall>k. k \<noteq> ''host'' \<and> k \<noteq> ''schemes'' \<longrightarrow>
      body (fst (swagHandler swagSpec cfg c env pkg)) k = mapaccess (heap pkg) a k"
    by (simp add: r spec_Serve_def)
  assume "\<not> AutoDetectHost cfg \<and> Config.Host cfg = []"
  then show "body (fst (swagHandler swagSpec cfg c env pkg)) = mapaccess (heap pkg) a"
    by (simp add: r spec_Serve_def)
qed

text \<open>
  C9 on the state that holds one document: a held value that is a slice is answered with
  500 and leaves the state as it was; the held map is answered with 200 and its
  \<^verbatim>\<open>basePath\<close>.
\<close>

theorem swagHandler_outcome_witness:
  "swagHandler (VSlice []) DefaultConfig (ctx_host ''localhost:8080'') env_none pkg_doc =
     (\<lparr>status = 500, body = [''error'' \<mapsto> VString ''Invalid swagger spec'']\<rparr>, pkg_doc)
   \<and> status (fst (swagHandler (VMap 0) DefaultConfig (ctx_host ''localhost:8080'') env_none
        pkg_doc)) = 200
   \<and> body (fst (swagHandler (VMap 0) DefaultConfig (ctx_host ''localhost:8080'') env_none
        pkg_doc)) ''basePath'' = Some (VString ''/api'')"
  using swagHandler_outcome[of "VSlice []" DefaultConfig "ctx_host ''localhost:8080''" env_none
      pkg_doc]
    swagHandler_outcome[of "VMap 0" DefaultConfig "ctx_host ''localhost:8080''" env_none
      pkg_doc _ _ 0]
  by (simp add: pkg_doc_def mapaccess_def entries_of_def)



text \<open>
  C1. \<^verbatim>\<open>docHandler\<close> writes the resolved host and scheme into the document that the
  \<^verbatim>\<open>Swagger\<close> holds: before the request the held document has no host and no scheme,
  after a request forwarded for \<^verbatim>\<open>docs.example.com\<close> it has that host and the scheme
  \<^verbatim>\<open>http\<close>. The handler of \<^verbatim>\<open>SetupWithSwag\<close> leaves the held document as it was
  (\<open>swagHandler_base_unchanged\<close>, \<open>swagHandler_repeat\<close>).
\<close>

theorem docHandler_writes_spec:
  "SwaggerSpec.Host (spec swagger_auto) = []
   \<and> SwaggerSpec.Host (spec (snd (docHandler swagger_auto
        (ctx_forwarded ''docs.example.com'' ''10.0.0.5:8080'') env_none))) = ''docs.example.com''
   \<and> SwaggerSpec.Schemes (spec swagger_auto) = []
   \<and> SwaggerSpec.Schemes (spec (snd (docHandler swagger_auto
        (ctx_forwarded ''docs.example.com'' ''10.0.0.5:8080'') env_none))) = [''http'']"
proof -
  have c: "config swagger_auto = NewConfig"
    by (simp add: swagger_auto_def config_New)
  have a: "AutoDetectHost (config swagger_auto)"
    by (simp add: c NewConfig_def zeroConfig_def)
  have h: "detectHost (ctx_forwarded ''docs.example.com'' ''10.0.0.5:8080'') env_none
      = ''docs.example.com''"
    by (simp add: detectHost_def ctx_forwarded_def Get_def)
  have s: "detectScheme (ctx_forwarded ''docs.example.com'' ''10.0.0.5:8080'') env_none = ''http''"
    by (simp add: detectScheme_def ctx_forwarded_def env_none_def Get_def Getenv_def)
  have n: "SwaggerSpec.Host (spec swagger_auto) = [] \<and> SwaggerSpec.Schemes (spec swagger_auto) = []"
    by (simp add: swagger_auto_def New_def Let_def NewConfig_def zeroConfig_def)
  show ?thesis
    using n by (simp add: docHandler_auto[OF a] h s)
qed

section \<open>Registering the routes\<close>

lemma SetupWithSwag_disabled:
  "\<not> Enabled cfg \<Longrightarrow> SetupWithSwag router swagSpec (Some cfg) pkg = (router, pkg)"
  by (simp add: SetupWithSwag_def)

lemma Setup_disabled: "\<not> Enabled cfg \<Longrightarrow> Setup router (Some cfg) = Inr router"
  by (simp add: Setup_def)

lemma SetupFromDocs_disabled:
  "\<not> Enabled cfg \<Longrightarrow> fst (fst (SetupFromDocs unmarshal router swaggerInfo (Some cfg) pkg)) = router"
  by (auto simp: SetupFromDocs_def LoadSwagDocs_def SetupWithSwag_def
      split: option.splits sum.splits prod.splits)

lemma Setup_part_002_registers:
  "Setup_part_002 router (Some cfg) = (router @ [(UIPath cfg @ ''/*any'', WrapHandler None)], None)"
  by (simp add: Setup_part_002_def GET_def)

text \<open>
  C7. With the service disabled, \<^verbatim>\<open>Setup\<close> of \<^verbatim>\<open>src/unnamed/part_002\<close> still registers
  the UI route on an empty router. \<^verbatim>\<open>Setup\<close> of \<^verbatim>\<open>swagger.go\<close>, \<^verbatim>\<open>SetupWithSwag\<close> and
  \<^verbatim>\<open>SetupFromDocs\<close> register nothing then (\<open>Setup_disabled\<close>, \<open>SetupWithSwag_disabled\<close>,
  \<open>SetupFromDocs_disabled\<close>).
\<close>

theorem Setup_part_002_disabled:
  "Enabled cfg_disabled = False
   \<and> Setup_part_002 [] (Some cfg_disabled) = ([(''/swagger/*any'', WrapHandler None)], None)"
  by (simp add: Setup_part_002_def GET_def cfg_disabled_def DefaultConfig_def zeroConfig_def)

lemma SetupWithSwag_nil_config:
  "SetupWithSwag router swagSpec None pkg = SetupWithSwag router swagSpec (Some DefaultConfig) pkg"
  by (simp add: SetupWithSwag_def)

text \<open>
  C10. \<^verbatim>\<open>Setup\<close> of \<^verbatim>\<open>swagger.go\<close> with a nil configuration reads \<^verbatim>\<open>config.Enabled\<close>
  through the nil pointer and panics, on every router. \<^verbatim>\<open>SetupWithSwag\<close> with a nil
  configuration runs as with the defaults (\<open>SetupWithSwag_nil_config\<close>).
\<close>

theorem Setup_nil_config: "Setup router None = Inl NilPointerDereference"
  by (simp add: Setup_def)

section \<open>Loading the document\<close>



end
